theory Spec2Isabelle
  imports Complex_Main
begin

section \<open>Values, errors and the numpy/scipy primitives\<close>

text \<open>
  The embedding of \<^verbatim>\<open>tesi_prova.py\<close>. A finite float64 is modelled by the real number
  it stands for: rounding and the overflow of \<^verbatim>\<open>np.exp\<close> are outside the model. The
  special values that numpy produces structurally (the mean of an empty slice is
  \<^verbatim>\<open>nan\<close>, the sentinel \<^verbatim>\<open>np.inf\<close>) are the constructors of \<open>float64\<close>.
  Every draw from numpy's global random source is an explicit argument. Exceptions are
  values of type \<open>error\<close>, on the left of a sum.
\<close>

datatype error = ValueError | ZeroDivisionError | IndexError | NameError

datatype float64 = Num real | PosInf | NegInf | NaN

fun isnan :: "float64 \<Rightarrow> bool" where
  "isnan NaN = True"
| "isnan _ = False"

fun isinf :: "float64 \<Rightarrow> bool" where
  "isinf PosInf = True"
| "isinf NegInf = True"
| "isinf _ = False"

fun num_of :: "float64 \<Rightarrow> real" where
  "num_of (Num v) = v"
| "num_of _ = 0"

text \<open>\<^verbatim>\<open>c * v\<close> for a finite \<open>c\<close> and a float64 \<open>v\<close>.\<close>

fun float_scale :: "real \<Rightarrow> float64 \<Rightarrow> float64" where
  "float_scale c (Num v) = Num (c * v)"
| "float_scale c NaN = NaN"
| "float_scale c PosInf = (if 0 < c then PosInf else if c < 0 then NegInf else NaN)"
| "float_scale c NegInf = (if 0 < c then NegInf else if c < 0 then PosInf else NaN)"

text \<open>\<^verbatim>\<open>np.mean\<close> of a one-dimensional array: \<^verbatim>\<open>nan\<close> (with a warning) on an empty one.\<close>

definition np_mean :: "real list \<Rightarrow> float64" where
  "np_mean xs = (if xs = [] then NaN else Num (sum_list xs / real (length xs)))"

text \<open>
  \<^verbatim>\<open>np.mean(a, axis=0)\<close> of an array of shape \<open>(length rows, ncols)\<close>: the rows are
  added up position by position and the sums divided by the number of rows; with no row
  every mean is \<^verbatim>\<open>nan\<close>. All rows are taken to have \<open>ncols\<close> entries, as those of a
  numpy array do.
\<close>

definition np_mean_axis0 :: "nat \<Rightarrow> real list list \<Rightarrow> float64 list" where
  "np_mean_axis0 ncols rows =
     (if rows = [] then replicate ncols NaN
      else map (\<lambda>s. Num (s / real (length rows)))
             (foldl (\<lambda>acc row. map2 (+) acc row) (replicate ncols 0) rows))"

text \<open>\<^verbatim>\<open>np.cumsum\<close> along a row.\<close>

fun cumsum_from :: "real \<Rightarrow> real list \<Rightarrow> real list" where
  "cumsum_from acc [] = []"
| "cumsum_from acc (v # vs) = (acc + v) # cumsum_from (acc + v) vs"

definition np_cumsum :: "real list \<Rightarrow> real list" where
  "np_cumsum vs = cumsum_from 0 vs"

text \<open>\<^verbatim>\<open>np.clip(v, lo, hi)\<close>.\<close>

definition np_clip :: "real \<Rightarrow> real \<Rightarrow> real \<Rightarrow> real" where
  "np_clip v lo hi = min (max v lo) hi"

text \<open>Python's \<^verbatim>\<open>int(v)\<close> on a float: truncation towards zero.\<close>

definition py_int :: "real \<Rightarrow> int" where
  "py_int v = (if 0 \<le> v then \<lfloor>v\<rfloor> else \<lceil>v\<rceil>)"

text \<open>
  \<^verbatim>\<open>np.random.normal(loc, scale)\<close> is \<open>loc + scale * z\<close> for a standard normal draw
  \<open>z\<close>, and raises ValueError for a negative scale. \<^verbatim>\<open>np.random.poisson(lam)\<close>
  raises ValueError for a negative rate, returns 0 for the rate 0 and otherwise a
  natural number, here the raw draw. The array forms take the shape and one raw draw per
  position.
\<close>

definition random_normal :: "real \<Rightarrow> real \<Rightarrow> real \<Rightarrow> error + real" where
  "random_normal loc scale z = (if scale < 0 then Inl ValueError else Inr (loc + scale * z))"

definition random_poisson :: "real \<Rightarrow> nat \<Rightarrow> error + nat" where
  "random_poisson lam raw =
     (if lam < 0 then Inl ValueError else Inr (if lam = 0 then 0 else raw))"

definition random_normal_array ::
  "real \<Rightarrow> real \<Rightarrow> nat \<Rightarrow> nat \<Rightarrow> (nat \<Rightarrow> nat \<Rightarrow> real) \<Rightarrow> error + real list list" where
  "random_normal_array loc scale nrows ncols z =
     (if scale < 0 then Inl ValueError
      else Inr (map (\<lambda>i. map (\<lambda>j. loc + scale * z i j) [0..<ncols]) [0..<nrows]))"

definition random_poisson_array ::
  "real \<Rightarrow> nat \<Rightarrow> nat \<Rightarrow> (nat \<Rightarrow> nat \<Rightarrow> nat) \<Rightarrow> error + nat list list" where
  "random_poisson_array lam nrows ncols raw =
     (if lam < 0 then Inl ValueError
      else Inr (map (\<lambda>i. map (\<lambda>j. if lam = 0 then 0 else raw i j) [0..<ncols]) [0..<nrows]))"

text \<open>
  \<^verbatim>\<open>scipy.stats.norm.cdf\<close>, the standard normal distribution function
  \<open>(1 + erf (v / sqrt 2)) / 2\<close>, with the error function as its power series.
\<close>

definition erf_term :: "real \<Rightarrow> nat \<Rightarrow> real" where
  "erf_term v n = (- 1) ^ n * v ^ (2 * n + 1) / (fact n * real (2 * n + 1))"

definition erf :: "real \<Rightarrow> real" where
  "erf v = 2 / sqrt pi * (\<Sum>n. erf_term v n)"

definition norm_cdf :: "real \<Rightarrow> real" where
  "norm_cdf v = (1 + erf (v / sqrt 2)) / 2"

text \<open>
  \<^verbatim>\<open>np.exp(scipy.stats.poisson.logpmf(k, mu))\<close> for \<open>mu \<ge> 0\<close>: the Poisson probability
  of \<open>k\<close>, which at \<open>mu = 0\<close> is 1 for \<open>k = 0\<close> and 0 otherwise.
\<close>

definition poisson_pmf :: "nat \<Rightarrow> real \<Rightarrow> real" where
  "poisson_pmf k mu = mu ^ k * exp (- mu) / fact k"

section \<open>Path simulation\<close>

text \<open>
  The three batches of draws of one call of \<^verbatim>\<open>merton_jump_diffusion_paths\<close>, by row
  (path) and column (step): the standard normal draws behind \<^verbatim>\<open>dW\<close>, the raw Poisson
  draws behind \<^verbatim>\<open>N_t\<close> and the standard normal draws behind the jump sizes.
\<close>

record draws =
  z_dW :: "nat \<Rightarrow> nat \<Rightarrow> real"
  raw_N :: "nat \<Rightarrow> nat \<Rightarrow> nat"
  z_J :: "nat \<Rightarrow> nat \<Rightarrow> real"

text \<open>
  \<^verbatim>\<open>merton_jump_diffusion_paths\<close>. \<^verbatim>\<open>np.zeros\<close> raises ValueError on a negative
  dimension, and \<^verbatim>\<open>S[:, 0] = S0\<close> raises IndexError when the array has no column. The
  model is for \<open>dt \<ge> 0\<close> (every call in the source uses \<open>dt = 1\<close>); a negative \<open>dt\<close>
  ends in ValueError here, as it does in numpy whenever \<open>lambda' > 0\<close>.
\<close>

definition merton_jump_diffusion_paths ::
  "real \<Rightarrow> real \<Rightarrow> real \<Rightarrow> real \<Rightarrow> real \<Rightarrow> real \<Rightarrow> int \<Rightarrow> int \<Rightarrow> real \<Rightarrow> draws
     \<Rightarrow> error + real list list" where
  "merton_jump_diffusion_paths S0 r sigma lambda' mu_J sigma_J num_steps num_simulations dt rnd =
     (let m = exp (mu_J + 0.5 * sigma_J\<^sup>2) - 1 in
      if num_simulations < 0 \<or> num_steps + 1 < 0 then Inl ValueError
      else if num_steps + 1 = 0 then Inl IndexError
      else
        (case random_normal_array 0 (sqrt dt) (nat num_simulations) (nat num_steps) (z_dW rnd) of
           Inl e \<Rightarrow> Inl e
         | Inr dW \<Rightarrow>
        (case random_poisson_array (lambda' * dt) (nat num_simulations) (nat num_steps) (raw_N rnd) of
           Inl e \<Rightarrow> Inl e
         | Inr N_t \<Rightarrow>
        (case random_normal_array mu_J sigma_J (nat num_simulations) (nat num_steps) (z_J rnd) of
           Inl e \<Rightarrow> Inl e
         | Inr J \<Rightarrow>
            (let jumps = map2 (map2 (\<lambda>a n. a * real n)) J N_t;
                 diffusion = map (map (\<lambda>w. (r - lambda' * m - 0.5 * sigma\<^sup>2) * dt + sigma * w)) dW;
                 log_returns = map2 (map2 (+)) diffusion jumps;
                 S = map (\<lambda>lr. S0 # map (\<lambda>c. S0 * exp c) (np_cumsum lr)) log_returns
             in Inr (map (map (\<lambda>v. max v (1 / 10 ^ 8))) S))))))"

text \<open>
  Row \<open>i\<close> of \<^verbatim>\<open>log_returns\<close> and the row of prices built from a row of log returns,
  written out entry by entry; \<open>merton_unfold\<close> below shows that the array code computes
  exactly these rows.
\<close>

definition log_returns_row ::
  "real \<Rightarrow> real \<Rightarrow> real \<Rightarrow> real \<Rightarrow> real \<Rightarrow> int \<Rightarrow> real \<Rightarrow> draws \<Rightarrow> nat \<Rightarrow> real list" where
  "log_returns_row r sigma lambda' mu_J sigma_J num_steps dt rnd i =
     map (\<lambda>j. (r - lambda' * (exp (mu_J + 0.5 * sigma_J\<^sup>2) - 1) - 0.5 * sigma\<^sup>2) * dt
                + sigma * (0 + sqrt dt * z_dW rnd i j)
                + (mu_J + sigma_J * z_J rnd i j) * real (if lambda' * dt = 0 then 0 else raw_N rnd i j))
         [0..<nat num_steps]"

definition price_row :: "real \<Rightarrow> real list \<Rightarrow> real list" where
  "price_row S0 lr = map (\<lambda>v. max v (1 / 10 ^ 8)) (S0 # map (\<lambda>c. S0 * exp c) (np_cumsum lr))"

text \<open>The draws of a run in which every normal draw is 0 and no jump occurs.\<close>

definition zero_draws :: draws where
  "zero_draws = \<lparr>z_dW = (\<lambda>i j. 0), raw_N = (\<lambda>i j. 0), z_J = (\<lambda>i j. 0)\<rparr>"

section \<open>Calibration\<close>



text \<open>
  The first half of \<^verbatim>\<open>calculate_mse\<close>: unpack the four parameters (ValueError when
  there are not four), simulate, take the log returns \<^verbatim>\<open>log(S[:, 1:] / S[:, :-1])\<close> and
  average them over the paths at each step.
\<close>

definition simulated_log_returns :: "real list list \<Rightarrow> real list list" where
  "simulated_log_returns simulated_paths =
     map (\<lambda>row. map2 (\<lambda>a b. ln (a / b)) (tl row) (butlast row)) simulated_paths"

definition mean_simulated_returns ::
  "real list \<Rightarrow> real \<Rightarrow> real \<Rightarrow> int \<Rightarrow> int \<Rightarrow> draws \<Rightarrow> error + float64 list" where
  "mean_simulated_returns params S0 r num_steps num_simulations rnd =
     (case params of
        [sigma, lambda', mu_J, sigma_J] \<Rightarrow>
          (case merton_jump_diffusion_paths S0 r sigma lambda' mu_J sigma_J
                  num_steps num_simulations 1 rnd of
             Inl e \<Rightarrow> Inl e
           | Inr simulated_paths \<Rightarrow>
               Inr (np_mean_axis0 (nat num_steps) (simulated_log_returns simulated_paths)))
      | _ \<Rightarrow> Inl ValueError)"

text \<open>\<^verbatim>\<open>calculate_mse\<close>: truncation, the check for invalid values, the error.\<close>

definition calculate_mse ::
  "real list \<Rightarrow> real list \<Rightarrow> real \<Rightarrow> real \<Rightarrow> int \<Rightarrow> int \<Rightarrow> draws \<Rightarrow> error + float64" where
  "calculate_mse params historical_returns S0 r num_steps num_simulations rnd =
     (case mean_simulated_returns params S0 r num_steps num_simulations rnd of
        Inl e \<Rightarrow> Inl e
      | Inr mean_all \<Rightarrow>
          (let min_len = min (length mean_all) (length historical_returns);
               mean_returns = take min_len mean_all;
               hist_returns = take min_len historical_returns
           in if list_ex isnan mean_returns \<or> list_ex isinf mean_returns then Inr PosInf
              else Inr (np_mean (map2 (\<lambda>a b. (a - b)\<^sup>2) (map num_of mean_returns) hist_returns))))"

text \<open>
  The result object of \<^verbatim>\<open>scipy.optimize.differential_evolution\<close>, with its fields
  \<^verbatim>\<open>x\<close>, \<^verbatim>\<open>fun\<close> and \<^verbatim>\<open>success\<close>. The optimizer is outside the repository:
  \<^verbatim>\<open>calibrate_merton_parameters\<close> takes what it returned and pairs it with its
  objective value.
\<close>

record opt_result =
  res_x :: "real list"
  res_fun :: real
  res_success :: bool

definition calibrate_merton_parameters :: "opt_result \<Rightarrow> opt_result \<times> real" where
  "calibrate_merton_parameters result = (result, res_fun result)"

text \<open>
  \<^verbatim>\<open>run_multiple_calibrations\<close>; \<open>de i\<close> is what the optimizer returns in run \<open>i\<close>.
  The loop appends to the three lists, then the averages are taken, or None.
\<close>

definition calibration_step ::
  "(nat \<Rightarrow> opt_result) \<Rightarrow> opt_result list \<times> real list list \<times> real list \<Rightarrow> nat
     \<Rightarrow> opt_result list \<times> real list list \<times> real list" where
  "calibration_step de st i =
     (case st of (results, calibrated_parameters, mses) \<Rightarrow>
        (case calibrate_merton_parameters (de i) of (result, mse) \<Rightarrow>
           if res_success result
           then (results @ [result], calibrated_parameters @ [res_x result], mses @ [mse])
           else (results, calibrated_parameters, mses)))"

definition run_multiple_calibrations ::
  "(nat \<Rightarrow> opt_result) \<Rightarrow> int \<Rightarrow> opt_result list \<times> float64 list option \<times> float64 option" where
  "run_multiple_calibrations de num_runs =
     (case foldl (calibration_step de) ([], [], []) [0..<nat num_runs] of
        (results, calibrated_parameters, mses) \<Rightarrow>
          if calibrated_parameters \<noteq> []
          then (results,
                Some (np_mean_axis0 (length (hd calibrated_parameters)) calibrated_parameters),
                Some (np_mean mses))
          else (results, None, None))"

text \<open>
  The aggregation as the specification words it: the runs flagged successful, the
  arithmetic mean of a series, and the coordinate-wise mean of vectors with \<open>n\<close>
  coordinates.
\<close>

definition arithmetic_mean :: "real list \<Rightarrow> real" where
  "arithmetic_mean vs = sum_list vs / real (length vs)"

definition coordinatewise_mean :: "nat \<Rightarrow> real list list \<Rightarrow> real list" where
  "coordinatewise_mean n vectors = map (\<lambda>j. arithmetic_mean (map (\<lambda>v. v ! j) vectors)) [0..<n]"

definition successful_runs :: "(nat \<Rightarrow> opt_result) \<Rightarrow> int \<Rightarrow> opt_result list" where
  "successful_runs de num_runs = filter res_success (map de [0..<nat num_runs])"

text \<open>A scenario of three runs of which the second fails.\<close>

definition three_runs :: "nat \<Rightarrow> opt_result" where
  "three_runs i =
     (if i = 0 then \<lparr>res_x = [0.2, 0.1, 0.1, 0.3], res_fun = 0.004, res_success = True\<rparr>
      else if i = 1 then \<lparr>res_x = [1.5, 0.9, - 0.4, 0.8], res_fun = 0.5, res_success = False\<rparr>
      else \<lparr>res_x = [0.4, 0.3, - 0.1, 0.1], res_fun = 0.002, res_success = True\<rparr>)"

text \<open>
  The objective as the specification words it: the log return of a path at step \<open>j\<close>
  is averaged over all simulated paths, both series are cut to the shorter length, and
  the mean squared difference is taken.
\<close>

definition expected_log_return :: "real list list \<Rightarrow> nat \<Rightarrow> real" where
  "expected_log_return paths j = arithmetic_mean (map (\<lambda>path. ln (path ! (j + 1) / path ! j)) paths)"

definition mse_spec :: "real list list \<Rightarrow> nat \<Rightarrow> real list \<Rightarrow> real" where
  "mse_spec paths num_steps historical =
     (let n = min num_steps (length historical)
      in arithmetic_mean (map (\<lambda>j. (expected_log_return paths j - historical ! j)\<^sup>2) [0..<n]))"

text \<open>
  The one log return of the scenario S0 = 100, r = 0.0002, sigma = 0.2, lambda = 0.05,
  mu_J = 0, sigma_J = 0.02 with one path, one step and the draws \<open>zero_draws\<close>.
\<close>

definition scenario_log_return :: real where
  "scenario_log_return =
     ln (max (100 * exp (0.0002 - 0.05 * (exp (0 + 0.5 * 0.02\<^sup>2) - 1) - 0.5 * 0.2\<^sup>2)) (1 / 10 ^ 8) / 100)"

text \<open>An entry that \<^verbatim>\<open>np.isnan\<close> or \<^verbatim>\<open>np.isinf\<close> flags.\<close>

definition nonfinite :: "float64 \<Rightarrow> bool" where
  "nonfinite v = (isnan v \<or> isinf v)"

section \<open>Option pricing\<close>

text \<open>
  \<^verbatim>\<open>black_scholes_option_pricing\<close>. The prices are modelled for \<open>K \<noteq> 0\<close> and
  \<open>T \<noteq> 0\<close>: a division by zero raises ZeroDivisionError on Python numbers and gives
  \<^verbatim>\<open>inf\<close> or \<^verbatim>\<open>nan\<close> on numpy numbers, and the statements below about arbitrary
  strikes and maturities assume them positive.
\<close>

definition black_scholes_option_pricing ::
  "real \<Rightarrow> real \<Rightarrow> real \<Rightarrow> real \<Rightarrow> real \<Rightarrow> string \<Rightarrow> error + real" where
  "black_scholes_option_pricing ST K T r_annual sigma_annual option_type =
     (let d1 = (ln (ST / K) + (r_annual + 0.5 * sigma_annual\<^sup>2) * T) / (sigma_annual * sqrt T);
          d2 = d1 - sigma_annual * sqrt T
      in if option_type = ''call''
         then Inr (ST * norm_cdf d1 - K * exp (- r_annual * T) * norm_cdf d2)
         else if option_type = ''put''
         then Inr (K * exp (- r_annual * T) * norm_cdf (- d2) - ST * norm_cdf (- d1))
         else Inl ValueError)"

text \<open>
  \<^verbatim>\<open>compute_jump_parameters\<close>, with the raw Poisson draw and the standard normal draw
  of this call.
\<close>

definition compute_jump_parameters ::
  "real \<Rightarrow> real \<Rightarrow> real \<Rightarrow> real \<Rightarrow> real \<Rightarrow> real \<Rightarrow> nat \<times> real
     \<Rightarrow> error + (nat \<times> real \<times> real \<times> real \<times> real \<times> real)" where
  "compute_jump_parameters r_annual sigma_annual lambda_annual mu_J_annual sigma_J_annual T draw =
     (case random_poisson (lambda_annual * T) (fst draw) of
        Inl e \<Rightarrow> Inl e
      | Inr n_jumps \<Rightarrow>
     (case random_normal 0 1 (snd draw) of
        Inl e \<Rightarrow> Inl e
      | Inr Z \<Rightarrow>
          (let m_annual = exp (mu_J_annual + 0.5 * sigma_J_annual\<^sup>2) - 1;
               r_n = r_annual - lambda_annual * m_annual + (real n_jumps * ln (1 + m_annual)) / T;
               sigma_n = sqrt (sigma_annual\<^sup>2 + real n_jumps * sigma_J_annual\<^sup>2 / T);
               lambda_n = lambda_annual * (1 + m_annual)
           in Inr (n_jumps, Z, m_annual, r_n, sigma_n, lambda_n))))"

text \<open>\<^verbatim>\<open>stock_price_with_jumps\<close>.\<close>

definition stock_price_with_jumps :: "real \<Rightarrow> real \<Rightarrow> real \<Rightarrow> real \<Rightarrow> real \<Rightarrow> real" where
  "stock_price_with_jumps S0 r_n sigma_n T Z =
     S0 * exp (r_n * T - 0.5 * sigma_n\<^sup>2 * T + sigma_n * sqrt T * Z)"

text \<open>A \<^verbatim>\<open>for\<close> loop over a list whose body updates a state or raises.\<close>

fun for_loop :: "('i \<Rightarrow> 's \<Rightarrow> error + 's) \<Rightarrow> 'i list \<Rightarrow> 's \<Rightarrow> error + 's" where
  "for_loop body [] s = Inr s"
| "for_loop body (i # rest) s =
     (case body i s of Inl e \<Rightarrow> Inl e | Inr s' \<Rightarrow> for_loop body rest s')"

text \<open>
  One pass through the body of the inner loop of \<^verbatim>\<open>black_scholes_with_jumps\<close>: the
  loop variable \<^verbatim>\<open>n_jumps\<close> is overwritten at once by the drawn count, so the body
  depends on the draws only. The state is the running sum \<^verbatim>\<open>bs_jumps_option_price\<close>.
\<close>

definition bsj_body ::
  "real \<Rightarrow> real \<Rightarrow> real \<Rightarrow> real \<Rightarrow> real \<Rightarrow> real \<Rightarrow> real \<Rightarrow> real \<Rightarrow> string \<Rightarrow> nat \<times> real \<Rightarrow> real
     \<Rightarrow> error + real" where
  "bsj_body ST K T r_annual sigma_annual lambda_annual mu_J_annual sigma_J_annual option_type
       draw bs_jumps_option_price =
     (case compute_jump_parameters r_annual sigma_annual lambda_annual mu_J_annual
             sigma_J_annual T draw of
        Inl e \<Rightarrow> Inl e
      | Inr (n_jumps, Z, m_annual, r_n, sigma_n, lambda_n) \<Rightarrow>
          (let poisson_weight = poisson_pmf n_jumps (lambda_n * T);
               safe_r_n_T = max (min (r_n * T) 700) (- 700);
               discount_factor = exp (- safe_r_n_T);
               d1 = (ln (ST / K) + (r_n + 0.5 * sigma_n\<^sup>2) * T) / (sigma_n * sqrt T);
               d2 = d1 - sigma_n * sqrt T;
               d1c = np_clip d1 (- 10) 10;
               d2c = np_clip d2 (- 10) 10
           in if option_type = ''call''
              then Inr (bs_jumps_option_price
                        + poisson_weight * (ST * norm_cdf d1c - K * discount_factor * norm_cdf d2c))
              else if option_type = ''put''
              then Inr (bs_jumps_option_price
                        + poisson_weight * (K * discount_factor * norm_cdf (- d2c) - ST * norm_cdf (- d1c)))
              else Inl ValueError))"

text \<open>
  \<^verbatim>\<open>black_scholes_with_jumps\<close>; \<open>rnd k\<close> is the pair of draws of the \<open>k\<close>-th call of
  \<^verbatim>\<open>compute_jump_parameters\<close>. When the loops have not run, the sum is still the
  integer 0 and the final division is Python's: ZeroDivisionError for
  \<open>num_simulations = 0\<close>.
\<close>

definition black_scholes_with_jumps ::
  "real \<Rightarrow> real \<Rightarrow> real \<Rightarrow> real \<Rightarrow> real \<Rightarrow> real \<Rightarrow> real \<Rightarrow> real \<Rightarrow> string \<Rightarrow> int \<Rightarrow> (nat \<Rightarrow> nat \<times> real)
     \<Rightarrow> error + real" where
  "black_scholes_with_jumps ST K T r_annual sigma_annual lambda_annual mu_J_annual sigma_J_annual
       option_type num_simulations rnd =
     (case for_loop
             (\<lambda>i. for_loop
                    (\<lambda>j. bsj_body ST K T r_annual sigma_annual lambda_annual mu_J_annual
                           sigma_J_annual option_type (rnd (10 * i + j)))
                    [0..<10])
             [0..<nat num_simulations] 0 of
        Inl e \<Rightarrow> Inl e
      | Inr bs_jumps_option_price \<Rightarrow>
          if num_simulations = 0 then Inl ZeroDivisionError
          else Inr (bs_jumps_option_price / real_of_int num_simulations))"

text \<open>
  The module-level names that \<^verbatim>\<open>monte_carlo_option_pricing\<close> reads. They are bound
  only after a successful calibration in the main block; reading an unbound one raises
  NameError.
\<close>

record globals =
  global_ST :: "real option"
  global_sigma_calibrated :: "real option"
  global_lambda_calibrated :: "real option"
  global_mu_J_calibrated :: "real option"
  global_sigma_J_calibrated :: "real option"

text \<open>
  \<^verbatim>\<open>monte_carlo_option_pricing\<close>, in the ambient state \<open>g\<close> and with the draws \<open>rnd\<close>.
  The parameter \<^verbatim>\<open>num_steps\<close> (None in the main block) is overwritten before use.
\<close>

definition monte_carlo_option_pricing ::
  "globals \<Rightarrow> draws \<Rightarrow> real \<Rightarrow> real \<Rightarrow> real \<Rightarrow> real \<Rightarrow> real \<Rightarrow> real \<Rightarrow> real \<Rightarrow> real \<Rightarrow> real \<Rightarrow> string
     \<Rightarrow> int \<Rightarrow> int option \<Rightarrow> error + float64" where
  "monte_carlo_option_pricing g rnd S0 r r_annual sigma lambda' mu_J sigma_J T K option_type
       num_simulations num_steps =
     (let num_steps' = py_int (252 * T) in
      case (global_ST g, global_sigma_calibrated g, global_lambda_calibrated g,
            global_mu_J_calibrated g, global_sigma_J_calibrated g) of
        (Some ST, Some sigma_calibrated, Some lambda_calibrated, Some mu_J_calibrated,
           Some sigma_J_calibrated) \<Rightarrow>
          (case merton_jump_diffusion_paths ST r sigma_calibrated lambda_calibrated
                  mu_J_calibrated sigma_J_calibrated num_steps' num_simulations 1 rnd of
             Inl e \<Rightarrow> Inl e
           | Inr simulated_paths \<Rightarrow>
               if option_type = ''call''
               then Inr (float_scale (exp (- r_annual * T))
                          (np_mean (map (\<lambda>row. max (last row - K) 0) simulated_paths)))
               else if option_type = ''put''
               then Inr (float_scale (exp (- r_annual * T))
                          (np_mean (map (\<lambda>row. max (K - last row) 0) simulated_paths)))
               else Inl ValueError)
      | _ \<Rightarrow> Inl NameError)"





section \<open>Simulated paths: first column and floor\<close>


lemma map2_map_same: "map2 f (map g xs) (map h xs) = map (\<lambda>i. f (g i) (h i)) xs"
  by (induction xs) auto

lemma merton_unfold:
  "merton_jump_diffusion_paths S0 r sigma lambda' mu_J sigma_J num_steps num_simulations dt rnd =
     (if num_simulations < 0 \<or> num_steps + 1 < 0 then Inl ValueError
      else if num_steps + 1 = 0 then Inl IndexError
      else if dt < 0 \<or> lambda' * dt < 0 \<or> sigma_J < 0 then Inl ValueError
      else Inr (map (\<lambda>i. price_row S0 (log_returns_row r sigma lambda' mu_J sigma_J num_steps dt rnd i))
                  [0..<nat num_simulations]))"
  unfolding merton_jump_diffusion_paths_def random_normal_array_def random_poisson_array_def Let_def
    price_row_def log_returns_row_def
  by (simp add: map2_map_same[where g = "\<lambda>i. i", simplified] map2_map_same o_def del: mult_eq_0_iff)

lemma length_cumsum_from: "length (cumsum_from a vs) = length vs"
  by (induction vs arbitrary: a) auto

lemma length_log_returns_row:
  "length (log_returns_row r sigma lambda' mu_J sigma_J num_steps dt rnd i) = nat num_steps"
  by (simp add: log_returns_row_def)

lemma length_price_row: "length (price_row S0 lr) = length lr + 1"
  by (simp add: price_row_def np_cumsum_def length_cumsum_from)


lemma price_row_0: "price_row S0 lr ! 0 = max S0 (1 / 10 ^ 8)"
  by (simp add: price_row_def)

lemma merton_scenario:
  "merton_jump_diffusion_paths 100 0.0002 0.2 0.05 0 0.02 1 1 1 zero_draws
     = Inr [price_row 100 (log_returns_row 0.0002 0.2 0.05 0 0.02 1 1 zero_draws 0)]"
  by (simp add: merton_unfold)

text \<open>
  C3, as amended. Every row of a returned array starts with \<open>max S0 1e-8\<close>: the floor
  is applied to the whole array, column 0 included. So column 0 is exactly \<open>S0\<close> when
  \<open>S0\<close> is at least the floor \<open>1e-8\<close>, and the floor otherwise.
\<close>

theorem merton_column_0:
  assumes "merton_jump_diffusion_paths S0 r sigma lambda' mu_J sigma_J num_steps num_simulations dt rnd
             = Inr paths"
    and "row \<in> set paths"
  shows "row \<noteq> [] \<and> row ! 0 = max S0 (1 / 10 ^ 8) \<and> (1 / 10 ^ 8 \<le> S0 \<longrightarrow> row ! 0 = S0)"
proof -
  from assms obtain i where "row = price_row S0 (log_returns_row r sigma lambda' mu_J sigma_J num_steps dt rnd i)"
    by (auto simp: merton_unfold split: if_splits)
  then show ?thesis
    by (auto simp: price_row_0 price_row_def)
qed

theorem merton_column_0_witness:
  "merton_jump_diffusion_paths 100 0.0002 0.2 0.05 0 0.02 1 1 1 zero_draws
     = Inr [price_row 100 (log_returns_row 0.0002 0.2 0.05 0 0.02 1 1 zero_draws 0)]
   \<and> price_row 100 (log_returns_row 0.0002 0.2 0.05 0 0.02 1 1 zero_draws 0)
       \<in> set [price_row 100 (log_returns_row 0.0002 0.2 0.05 0 0.02 1 1 zero_draws 0)]
   \<and> 1 / 10 ^ 8 \<le> (100::real)
   \<and> price_row 100 (log_returns_row 0.0002 0.2 0.05 0 0.02 1 1 zero_draws 0) ! 0 = 100"
proof -
  let ?row = "price_row 100 (log_returns_row 0.0002 0.2 0.05 0 0.02 1 1 zero_draws 0)"
  have m: "?row \<in> set [?row]" by simp
  have f: "1 / 10 ^ 8 \<le> (100::real)" by simp
  from merton_column_0[OF merton_scenario m] f have "?row ! 0 = 100" by blast
  with merton_scenario m f show ?thesis by blast
qed

text \<open>
  The claim as stated, for every initial price, fails below the floor: for
  \<open>S0 = 1e-9\<close> column 0 of the returned array is \<open>1e-8\<close>.
\<close>

lemma price_row_below_floor:
  assumes "c \<le> 0"
  shows "price_row (1 / 10 ^ 9) [c] = [1 / 10 ^ 8, 1 / 10 ^ 8]"
proof -
  from assms have "exp c \<le> 1" by simp
  then have "exp c \<le> 10" by argo
  then have "exp c / 10 ^ 9 \<le> 1 / 10 ^ 8" by simp
  then have "max (1 / 10 ^ 9 * exp c) (1 / 10 ^ 8) = 1 / 10 ^ 8"
    by (simp add: max_def)
  moreover have "max (1 / 10 ^ 9) (1 / 10 ^ 8 :: real) = 1 / 10 ^ 8" by simp
  ultimately show ?thesis
    unfolding price_row_def np_cumsum_def by (simp del: max.absorb1 max.absorb2 max.absorb3 max.absorb4)
qed

theorem merton_column_0_counterexample:
  "merton_jump_diffusion_paths (1 / 10 ^ 9) 0.0002 0.2 0.05 0 0.02 1 1 1 zero_draws
     = Inr [[1 / 10 ^ 8, 1 / 10 ^ 8]]
   \<and> [1 / 10 ^ 8, 1 / 10 ^ 8] ! 0 \<noteq> (1 / 10 ^ 9 :: real)"
proof -
  define c :: real where "c = 1 / 5000 - (exp (1 / 5000) - 1) / 20 - 1 / 50"
  have "(1::real) \<le> exp (1 / 5000)" by simp
  then have "c \<le> 0" unfolding c_def by argo
  have "log_returns_row 0.0002 0.2 0.05 0 0.02 1 1 zero_draws 0 = [c]"
    by (simp add: log_returns_row_def zero_draws_def c_def power2_eq_square)
  then have "merton_jump_diffusion_paths (1 / 10 ^ 9) 0.0002 0.2 0.05 0 0.02 1 1 1 zero_draws
      = Inr [price_row (1 / 10 ^ 9) [c]]"
    by (simp add: merton_unfold)
  with price_row_below_floor[OF \<open>c \<le> 0\<close>] show ?thesis by simp
qed






section \<open>Aggregation of calibration runs\<close>

lemma foldl_calibration_step:
  "foldl (calibration_step de) (results, calibrated_parameters, mses) runs =
     (results @ filter res_success (map de runs),
      calibrated_parameters @ map res_x (filter res_success (map de runs)),
      mses @ map res_fun (filter res_success (map de runs)))"
  by (induction runs arbitrary: results calibrated_parameters mses)
    (simp_all add: calibration_step_def calibrate_merton_parameters_def)

lemma foldl_add_rows:
  assumes "length acc = n" and "\<forall>row \<in> set rows. length row = n"
  shows "foldl (\<lambda>acc row. map2 (+) acc row) acc rows
           = map (\<lambda>j. acc ! j + sum_list (map (\<lambda>row. row ! j) rows)) [0..<n]"
  using assms
proof (induction rows arbitrary: acc)
  case Nil
  then show ?case using map_nth[of acc] by simp
next
  case (Cons row rows)
  have l: "length (map2 (+) acc row) = n" using Cons.prems by simp
  have "foldl (\<lambda>acc row. map2 (+) acc row) (map2 (+) acc row) rows
      = map (\<lambda>j. map2 (+) acc row ! j + sum_list (map (\<lambda>row. row ! j) rows)) [0..<n]"
    using Cons.IH[OF l] Cons.prems by simp
  also have "\<dots> = map (\<lambda>j. acc ! j + sum_list (map (\<lambda>row. row ! j) (row # rows))) [0..<n]"
    using Cons.prems by (intro map_cong) (auto simp: algebra_simps)
  finally show ?case by simp
qed

lemma np_mean_axis0_eq:
  assumes "rows \<noteq> []" and "\<forall>row \<in> set rows. length row = n"
  shows "np_mean_axis0 n rows = map Num (coordinatewise_mean n rows)"
  using assms
  by (simp add: np_mean_axis0_def coordinatewise_mean_def arithmetic_mean_def
      foldl_add_rows[where n = n] o_def)

text \<open>
  C6. \<^verbatim>\<open>run_multiple_calibrations\<close> returns exactly the runs flagged successful, in
  order; when there is one, the aggregate parameter vector is the coordinate-wise
  arithmetic mean of their parameter vectors (four parameters each) and the aggregate
  error the mean of their objective values; when there is none, both aggregates are None.
\<close>

theorem run_multiple_calibrations_mean:
  assumes "\<forall>res \<in> set (successful_runs de num_runs). length (res_x res) = 4"
  shows "run_multiple_calibrations de num_runs =
     (successful_runs de num_runs,
      if successful_runs de num_runs = [] then None
      else Some (map Num (coordinatewise_mean 4 (map res_x (successful_runs de num_runs)))),
      if successful_runs de num_runs = [] then None
      else Some (Num (arithmetic_mean (map res_fun (successful_runs de num_runs)))))"
proof (cases "successful_runs de num_runs = []")
  case True
  then show ?thesis
    by (simp add: run_multiple_calibrations_def foldl_calibration_step successful_runs_def)
next
  case False
  let ?ps = "map res_x (successful_runs de num_runs)"
  have ne: "?ps \<noteq> []" using False by simp
  have len: "\<forall>row \<in> set ?ps. length row = 4" using assms by simp
  have hd4: "length (hd ?ps) = 4" using ne len by (metis hd_in_set)
  have "np_mean_axis0 (length (hd ?ps)) ?ps = map Num (coordinatewise_mean 4 ?ps)"
    unfolding hd4 by (rule np_mean_axis0_eq[OF ne len])
  moreover have "np_mean (map res_fun (successful_runs de num_runs))
      = Num (arithmetic_mean (map res_fun (successful_runs de num_runs)))"
    using False by (simp add: np_mean_def arithmetic_mean_def)
  ultimately show ?thesis
    using False
    by (simp add: run_multiple_calibrations_def foldl_calibration_step successful_runs_def)
qed

lemma successful_three_runs: "successful_runs three_runs 3 = [three_runs 0, three_runs 2]"
  by (simp add: successful_runs_def three_runs_def upt_rec)

theorem run_multiple_calibrations_mean_witness:
  "list_all (\<lambda>res. length (res_x res) = 4) (successful_runs three_runs 3)
   \<and> run_multiple_calibrations three_runs 3 =
       ([three_runs 0, three_runs 2],
        Some [Num ((0.2 + 0.4) / 2), Num ((0.1 + 0.3) / 2), Num ((0.1 + - 0.1) / 2), Num ((0.3 + 0.1) / 2)],
        Some (Num ((0.004 + 0.002) / 2)))"
proof -
  have h: "\<forall>res \<in> set (successful_runs three_runs 3). length (res_x res) = 4"
    by (simp add: successful_three_runs three_runs_def)
  have "coordinatewise_mean 4 (map res_x [three_runs 0, three_runs 2]) =
      [(0.2 + 0.4) / 2, (0.1 + 0.3) / 2, (0.1 + - 0.1) / 2, (0.3 + 0.1) / 2]"
    by (simp add: coordinatewise_mean_def arithmetic_mean_def three_runs_def upt_rec)
  moreover have "arithmetic_mean (map res_fun [three_runs 0, three_runs 2]) = (0.004 + 0.002) / 2"
    by (simp add: arithmetic_mean_def three_runs_def)
  ultimately show ?thesis
    using run_multiple_calibrations_mean[OF h] h
    by (simp add: successful_three_runs list_all_iff)
qed

section \<open>The calibration objective\<close>

lemma map2_nth:
  "map2 f xs ys = map (\<lambda>j. f (xs ! j) (ys ! j)) [0..<min (length xs) (length ys)]"
  by (rule nth_equalityI) auto

lemma simulated_log_returns_nth:
  assumes "\<forall>row \<in> set paths. length row = n + 1"
  shows "simulated_log_returns paths
           = map (\<lambda>row. map (\<lambda>j. ln (row ! (j + 1) / row ! j)) [0..<n]) paths"
  unfolding simulated_log_returns_def
proof (rule map_cong[OF refl])
  fix row assume "row \<in> set paths"
  then have l: "length row = n + 1" using assms by blast
  show "map2 (\<lambda>a b. ln (a / b)) (tl row) (butlast row)
      = map (\<lambda>j. ln (row ! (j + 1) / row ! j)) [0..<n]"
    using l by (simp add: map2_nth nth_tl nth_butlast)
qed

lemma np_mean_axis0_log_returns:
  assumes "paths \<noteq> []" and "\<forall>row \<in> set paths. length row = n + 1"
  shows "np_mean_axis0 n (simulated_log_returns paths)
           = map (\<lambda>j. Num (expected_log_return paths j)) [0..<n]"
proof -
  let ?lr = "map (\<lambda>row. map (\<lambda>j. ln (row ! (j + 1) / row ! j)) [0..<n]) paths"
  have "np_mean_axis0 n ?lr = map Num (coordinatewise_mean n ?lr)"
    using assms(1) by (intro np_mean_axis0_eq) auto
  also have "\<dots> = map (\<lambda>j. Num (expected_log_return paths j)) [0..<n]"
    by (simp add: coordinatewise_mean_def expected_log_return_def o_def cong: map_cong)
  finally show ?thesis
    by (simp add: simulated_log_returns_nth[OF assms(2)])
qed

lemma merton_rows_length:
  assumes "merton_jump_diffusion_paths S0 r sigma lambda' mu_J sigma_J num_steps num_simulations dt rnd
             = Inr paths"
  shows "length paths = nat num_simulations \<and> (\<forall>row \<in> set paths. length row = nat num_steps + 1)"
  using assms
  by (auto simp: merton_unfold length_price_row length_log_returns_row split: if_splits)

lemma mean_simulated_returns_cases:
  assumes "mean_simulated_returns params S0 r num_steps num_simulations rnd = Inr mean_all"
  obtains sigma lambda' mu_J sigma_J paths where
    "params = [sigma, lambda', mu_J, sigma_J]"
    "merton_jump_diffusion_paths S0 r sigma lambda' mu_J sigma_J num_steps num_simulations 1 rnd = Inr paths"
    "mean_all = (if paths = [] then replicate (nat num_steps) NaN
                 else map (\<lambda>j. Num (expected_log_return paths j)) [0..<nat num_steps])"
proof -
  from assms obtain sigma lambda' mu_J sigma_J where p: "params = [sigma, lambda', mu_J, sigma_J]"
    by (auto simp: mean_simulated_returns_def split: list.splits)
  from assms p obtain paths where
    m: "merton_jump_diffusion_paths S0 r sigma lambda' mu_J sigma_J num_steps num_simulations 1 rnd = Inr paths"
    and a: "mean_all = np_mean_axis0 (nat num_steps) (simulated_log_returns paths)"
    by (auto simp: mean_simulated_returns_def split: sum.splits)
  have "mean_all = (if paths = [] then replicate (nat num_steps) NaN
                 else map (\<lambda>j. Num (expected_log_return paths j)) [0..<nat num_steps])"
  proof (cases "paths = []")
    case True
    then show ?thesis by (simp add: a np_mean_axis0_def simulated_log_returns_def)
  next
    case False
    then show ?thesis
      using np_mean_axis0_log_returns[OF False] merton_rows_length[OF m] a by simp
  qed
  with p m show ?thesis by (rule that)
qed


lemma calculate_mse_unfold:
  assumes "mean_simulated_returns params S0 r num_steps num_simulations rnd = Inr mean_all"
  shows "calculate_mse params historical_returns S0 r num_steps num_simulations rnd =
     (if list_ex nonfinite (take (min (length mean_all) (length historical_returns)) mean_all)
      then Inr PosInf
      else Inr (np_mean (map2 (\<lambda>a b. (a - b)\<^sup>2)
                  (map num_of (take (min (length mean_all) (length historical_returns)) mean_all))
                  (take (min (length mean_all) (length historical_returns)) historical_returns))))"
  using assms
  by (auto simp: calculate_mse_def Let_def nonfinite_def list_ex_iff)




lemma mean_simulated_returns_one_path:
  "mean_simulated_returns [0.2, 0.05, 0, 0.02] 100 0.0002 1 1 zero_draws
     = Inr [Num scenario_log_return]"
  by (simp add: mean_simulated_returns_def merton_unfold np_mean_axis0_def simulated_log_returns_def
    price_row_def log_returns_row_def zero_draws_def np_cumsum_def scenario_log_return_def)



lemma take_map_upt: "m \<le> n \<Longrightarrow> take m (map f [0..<n]) = map f [0..<m]"
  by (simp add: take_map)

text \<open>
  C9. Whenever \<^verbatim>\<open>calculate_mse\<close> returns a finite value, that value is the mean
  squared error between the per-step average over all simulated paths of the log returns
  and the historical log returns, both cut to the length of the shorter series.
\<close>

theorem calculate_mse_is_spec:
  assumes "calculate_mse params historical_returns S0 r num_steps num_simulations rnd = Inr (Num v)"
  shows "\<exists>sigma lambda' mu_J sigma_J paths.
           params = [sigma, lambda', mu_J, sigma_J]
         \<and> merton_jump_diffusion_paths S0 r sigma lambda' mu_J sigma_J num_steps num_simulations 1 rnd
             = Inr paths
         \<and> v = mse_spec paths (nat num_steps) historical_returns"
proof -
  from assms obtain mean_all where
    ma: "mean_simulated_returns params S0 r num_steps num_simulations rnd = Inr mean_all"
    by (auto simp: calculate_mse_def split: sum.splits)
  note u = calculate_mse_unfold[OF ma, of historical_returns]
  from ma obtain sigma lambda' mu_J sigma_J paths where
    p: "params = [sigma, lambda', mu_J, sigma_J]" and
    m: "merton_jump_diffusion_paths S0 r sigma lambda' mu_J sigma_J num_steps num_simulations 1 rnd = Inr paths" and
    e: "mean_all = (if paths = [] then replicate (nat num_steps) NaN
                 else map (\<lambda>j. Num (expected_log_return paths j)) [0..<nat num_steps])"
    by (rule mean_simulated_returns_cases)
  define n where "n = min (nat num_steps) (length historical_returns)"
  have len: "min (length mean_all) (length historical_returns) = n"
    by (simp add: e n_def)
  have ne: "paths \<noteq> []"
  proof
    assume "paths = []"
    then have "mean_all = replicate (nat num_steps) NaN" using e by simp
    then have "calculate_mse params historical_returns S0 r num_steps num_simulations rnd
        = (if 0 < n then Inr PosInf else Inr NaN)"
      unfolding u len by (cases n) (auto simp: nonfinite_def np_mean_def list_ex_iff n_def)
    with assms show False by (simp split: if_splits)
  qed
  then have t: "take n mean_all = map (\<lambda>j. Num (expected_log_return paths j)) [0..<n]"
    using e by (simp add: take_map_upt n_def)
  have nf: "\<not> list_ex nonfinite (take n mean_all)"
    unfolding t by (simp add: list_ex_iff nonfinite_def)
  have "map2 (\<lambda>a b. (a - b)\<^sup>2) (map num_of (take n mean_all)) (take n historical_returns)
      = map (\<lambda>j. (expected_log_return paths j - historical_returns ! j)\<^sup>2) [0..<n]"
    unfolding t by (subst map2_nth) (auto simp: n_def)
  then have "calculate_mse params historical_returns S0 r num_steps num_simulations rnd
      = Inr (np_mean (map (\<lambda>j. (expected_log_return paths j - historical_returns ! j)\<^sup>2) [0..<n]))"
    unfolding u len using nf by simp
  with assms have "v = mse_spec paths (nat num_steps) historical_returns"
    by (auto simp: np_mean_def mse_spec_def arithmetic_mean_def n_def Let_def split: if_splits)
  with p m show ?thesis by blast
qed

lemma calculate_mse_scenario:
  "calculate_mse [0.2, 0.05, 0, 0.02] [0.01] 100 0.0002 1 1 zero_draws
     = Inr (Num ((scenario_log_return - 0.01)\<^sup>2))"
  unfolding calculate_mse_unfold[OF mean_simulated_returns_one_path]
  by (simp add: nonfinite_def np_mean_def)

theorem calculate_mse_is_spec_witness:
  "calculate_mse [0.2, 0.05, 0, 0.02] [0.01] 100 0.0002 1 1 zero_draws
     = Inr (Num ((scenario_log_return - 0.01)\<^sup>2))
   \<and> (scenario_log_return - 0.01)\<^sup>2
       = mse_spec [price_row 100 (log_returns_row 0.0002 0.2 0.05 0 0.02 1 1 zero_draws 0)] 1 [0.01]"
proof -
  from calculate_mse_is_spec[OF calculate_mse_scenario] obtain paths where
    "merton_jump_diffusion_paths 100 0.0002 0.2 0.05 0 0.02 1 1 1 zero_draws = Inr paths"
    "(scenario_log_return - 0.01)\<^sup>2 = mse_spec paths (nat 1) [0.01]"
    by blast
  with merton_scenario have "(scenario_log_return - 0.01)\<^sup>2
       = mse_spec [price_row 100 (log_returns_row 0.0002 0.2 0.05 0 0.02 1 1 zero_draws 0)] 1 [0.01]"
    by auto
  with calculate_mse_scenario show ?thesis by blast
qed

section \<open>Monte Carlo pricing reads the ambient state\<close>

text \<open>
  C2. In the same ambient state and with the same draws, the price (or error) of
  \<^verbatim>\<open>monte_carlo_option_pricing\<close> does not depend on its arguments \<open>S0\<close>, \<open>sigma\<close>,
  \<open>lambda_\<close>, \<open>mu_J\<close>, \<open>sigma_J\<close> and \<open>num_steps\<close>: the simulation runs from the globals
  and from \<open>int(252 * T)\<close> steps.
\<close>

theorem monte_carlo_ignores_explicit_arguments:
  "monte_carlo_option_pricing g rnd S0 r r_annual sigma lambda' mu_J sigma_J T K option_type
       num_simulations num_steps
   = monte_carlo_option_pricing g rnd S0' r r_annual sigma' lambda'' mu_J' sigma_J' T K option_type
       num_simulations num_steps'"
  by (simp add: monte_carlo_option_pricing_def)

section \<open>The normal distribution function\<close>

lemma summable_erf_term: "summable (erf_term v)"
proof (rule summable_comparison_test')
  show "summable (\<lambda>n. \<bar>v\<bar> * ((v\<^sup>2) ^ n /\<^sub>R fact n))"
    by (intro summable_mult summable_exp_generic)
next
  fix n :: nat
  assume "n \<ge> 0"
  have "norm (erf_term v n) = \<bar>v\<bar> ^ (2 * n + 1) / (fact n * real (2 * n + 1))"
    by (simp add: erf_term_def abs_mult power_abs)
  also have "\<dots> \<le> \<bar>v\<bar> ^ (2 * n + 1) / (fact n * 1)"
    by (intro divide_left_mono mult_left_mono) auto
  also have "\<dots> = \<bar>v\<bar> * ((v\<^sup>2) ^ n /\<^sub>R fact n)"
    by (simp add: power_mult power2_eq_square field_simps power_abs[symmetric] abs_mult
        flip: power_mult_distrib)
  finally show "norm (erf_term v n) \<le> \<bar>v\<bar> * ((v\<^sup>2) ^ n /\<^sub>R fact n)" .
qed

lemma erf_minus: "erf (- v) = - erf v"
proof -
  have "erf_term (- v) = (\<lambda>n. - erf_term v n)"
    by (rule ext) (simp add: erf_term_def)
  then show ?thesis
    unfolding erf_def using suminf_minus[OF summable_erf_term[of v]] by simp
qed

lemma norm_cdf_minus: "norm_cdf (- v) = 1 - norm_cdf v"
  by (simp add: norm_cdf_def erf_minus field_simps)

lemma erf_zero: "erf 0 = 0"
  by (simp add: erf_def erf_term_def)

lemma norm_cdf_zero: "norm_cdf 0 = 1 / 2"
  by (simp add: norm_cdf_def erf_zero)

lemma erf_nonneg:
  assumes "0 \<le> v" "v \<le> 1"
  shows "0 \<le> erf v"
proof -
  define a where "a n = v ^ (2 * n + 1) / (fact n * real (2 * n + 1))" for n
  have et: "erf_term v = (\<lambda>n. (- 1) ^ n * a n)"
    by (rule ext) (simp add: erf_term_def a_def)
  have nonneg: "0 \<le> a n" for n
    using assms by (simp add: a_def)
  have "(\<lambda>n. (- 1) ^ n * a n) \<longlonglongrightarrow> 0"
    using summable_LIMSEQ_zero[OF summable_erf_term[of v]] by (simp add: et)
  then have "(\<lambda>n. \<bar>(- 1) ^ n * a n\<bar>) \<longlonglongrightarrow> 0"
    by (simp only: tendsto_rabs_zero_iff)
  then have lim: "a \<longlonglongrightarrow> 0"
    using nonneg by (simp add: abs_mult power_abs)
  have mono: "a (Suc n) \<le> a n" for n
  proof -
    have "v ^ (2 * Suc n + 1) \<le> v ^ (2 * n + 1)"
      using assms by (intro power_decreasing) auto
    moreover have "fact n * real (2 * n + 1) \<le> fact (Suc n) * real (2 * Suc n + 1)"
      by (intro mult_mono) (auto simp: field_simps)
    ultimately show ?thesis
      unfolding a_def using assms
      by (intro frac_le) (auto)
  qed
  have "(\<Sum>i<2 * 1. (- 1) ^ i * a i) \<le> (\<Sum>i. (- 1) ^ i * a i)"
    using lim nonneg mono by (rule summable_Leibniz'(2))
  moreover have "(\<Sum>i<2 * 1. (- 1) ^ i * a i) = a 0 - a 1"
    by (simp add: numeral_2_eq_2)
  moreover have "a 1 \<le> a 0" using mono[of 0] by simp
  ultimately have "0 \<le> (\<Sum>n. erf_term v n)"
    by (simp add: et)
  then show ?thesis
    by (simp add: erf_def)
qed

lemma norm_cdf_ge_half:
  assumes "0 \<le> v" "v \<le> 1"
  shows "1 / 2 \<le> norm_cdf v"
proof -
  have "1 \<le> sqrt 2" by simp
  then have "v * 1 \<le> v * sqrt 2"
    using assms(1) by (rule mult_left_mono)
  then have "v / sqrt 2 \<le> v"
    by (simp add: field_simps)
  with assms(2) have "v / sqrt 2 \<le> 1" by linarith
  moreover have "0 \<le> v / sqrt 2" using assms(1) by simp
  ultimately have "0 \<le> erf (v / sqrt 2)"
    by (intro erf_nonneg)
  then show ?thesis by (simp add: norm_cdf_def)
qed

section \<open>Closed-form prices: put-call parity\<close>

lemma put_call_parity:
  assumes "black_scholes_option_pricing ST K T r_annual sigma_annual ''call'' = Inr c"
    and "black_scholes_option_pricing ST K T r_annual sigma_annual ''put'' = Inr p"
  shows "c - p = ST - K * exp (- r_annual * T)"
  using assms
  by (auto simp: black_scholes_option_pricing_def Let_def norm_cdf_minus algebra_simps)

text \<open>
  C8. For S = 100, K = 100, T = 1, r_annual = 0.02 and sigma_annual = 0.2 the closed-form
  routine returns a call price and a put price, and their difference is
  \<open>S - K * exp (- r * T)\<close>; over the reals the parity is exact.
\<close>

theorem black_scholes_put_call_parity_literal:
  "\<exists>c p. black_scholes_option_pricing 100 100 1 0.02 0.2 ''call'' = Inr c
     \<and> black_scholes_option_pricing 100 100 1 0.02 0.2 ''put'' = Inr p
     \<and> c - p = 100 - 100 * exp (- 0.02 * 1)"
proof -
  obtain c where c: "black_scholes_option_pricing 100 100 1 0.02 0.2 ''call'' = Inr c"
    by (simp add: black_scholes_option_pricing_def Let_def)
  obtain p where p: "black_scholes_option_pricing 100 100 1 0.02 0.2 ''put'' = Inr p"
    by (simp add: black_scholes_option_pricing_def Let_def)
  from put_call_parity[OF c p] c p show ?thesis by blast
qed

section \<open>Jump-adjusted parameters\<close>



section \<open>Loops\<close>

lemma for_loop_constant_step:
  assumes "\<And>i s. body i s = Inr (s + c)"
  shows "for_loop body xs s = Inr (s + real (length xs) * c)"
  by (induction xs arbitrary: s) (simp_all add: assms algebra_simps)



section \<open>Invalid option type\<close>









section \<open>The jump-adjusted price at zero intensity\<close>

lemma bsj_body_zero_intensity:
  assumes "0 < T" and "0 \<le> sigma_annual"
    and "- 700 \<le> r_annual * T" and "r_annual * T \<le> 700"
    and "- 10 \<le> (ln (ST / K) + (r_annual + 0.5 * sigma_annual\<^sup>2) * T) / (sigma_annual * sqrt T)"
    and "(ln (ST / K) + (r_annual + 0.5 * sigma_annual\<^sup>2) * T) / (sigma_annual * sqrt T) \<le> 10"
    and "- 10 \<le> (ln (ST / K) + (r_annual + 0.5 * sigma_annual\<^sup>2) * T) / (sigma_annual * sqrt T)
                  - sigma_annual * sqrt T"
    and "(ln (ST / K) + (r_annual + 0.5 * sigma_annual\<^sup>2) * T) / (sigma_annual * sqrt T)
                  - sigma_annual * sqrt T \<le> 10"
    and "black_scholes_option_pricing ST K T r_annual sigma_annual option_type = Inr p"
  shows "bsj_body ST K T r_annual sigma_annual 0 mu_J_annual sigma_J_annual option_type draw acc
           = Inr (acc + p)"
proof -
  have c: "compute_jump_parameters r_annual sigma_annual 0 mu_J_annual sigma_J_annual T draw
      = Inr (0, snd draw, exp (mu_J_annual + 0.5 * sigma_J_annual\<^sup>2) - 1, r_annual, sigma_annual, 0)"
    using assms(1,2)
    by (simp add: compute_jump_parameters_def random_poisson_def random_normal_def Let_def)
  have w: "poisson_pmf 0 (0 * T) = 1"
    by (simp add: poisson_pmf_def)
  have d: "- (r_annual * T) = - r_annual * T" by simp
  have s: "max (min (r_annual * T) 700) (- 700) = r_annual * T"
    using assms(3,4) by simp
  define d1 where "d1 = (ln (ST / K) + (r_annual + 0.5 * sigma_annual\<^sup>2) * T) / (sigma_annual * sqrt T)"
  have k1: "np_clip d1 (- 10) 10 = d1"
    using assms(5,6) by (simp add: np_clip_def d1_def)
  have k2: "np_clip (d1 - sigma_annual * sqrt T) (- 10) 10 = d1 - sigma_annual * sqrt T"
    using assms(7,8) by (simp add: np_clip_def d1_def)
  show ?thesis
    using assms(9)
    apply (simp only: bsj_body_def c sum.case prod.case Let_def black_scholes_option_pricing_def)
    apply (simp only: d1_def[symmetric] w s k1 k2 d)
    apply (simp split: if_splits)
    done
qed

lemma black_scholes_with_jumps_zero_intensity:
  assumes "0 < T" and "0 \<le> sigma_annual"
    and "- 700 \<le> r_annual * T" and "r_annual * T \<le> 700"
    and "- 10 \<le> (ln (ST / K) + (r_annual + 0.5 * sigma_annual\<^sup>2) * T) / (sigma_annual * sqrt T)"
    and "(ln (ST / K) + (r_annual + 0.5 * sigma_annual\<^sup>2) * T) / (sigma_annual * sqrt T) \<le> 10"
    and "- 10 \<le> (ln (ST / K) + (r_annual + 0.5 * sigma_annual\<^sup>2) * T) / (sigma_annual * sqrt T)
                  - sigma_annual * sqrt T"
    and "(ln (ST / K) + (r_annual + 0.5 * sigma_annual\<^sup>2) * T) / (sigma_annual * sqrt T)
                  - sigma_annual * sqrt T \<le> 10"
    and "black_scholes_option_pricing ST K T r_annual sigma_annual option_type = Inr p"
    and "1 \<le> num_simulations"
  shows "black_scholes_with_jumps ST K T r_annual sigma_annual 0 mu_J_annual sigma_J_annual
           option_type num_simulations rnd = Inr (10 * p)"
proof -
  have inner: "for_loop
      (\<lambda>j. bsj_body ST K T r_annual sigma_annual 0 mu_J_annual sigma_J_annual
              option_type (rnd (10 * i + j))) [0..<10] s = Inr (s + 10 * p)" for i s
    using for_loop_constant_step[where xs = "[0..<10]" and c = p and s = s
        and body = "\<lambda>j. bsj_body ST K T r_annual sigma_annual 0 mu_J_annual sigma_J_annual
              option_type (rnd (10 * i + j))"]
      bsj_body_zero_intensity[OF assms(1-9)]
    by simp
  have "for_loop
      (\<lambda>i. for_loop
             (\<lambda>j. bsj_body ST K T r_annual sigma_annual 0 mu_J_annual sigma_J_annual
                     option_type (rnd (10 * i + j))) [0..<10])
      [0..<nat num_simulations] 0 = Inr (0 + real (length [0..<nat num_simulations]) * (10 * p))"
    using inner by (rule for_loop_constant_step)
  then show ?thesis
    using assms(10) by (simp add: black_scholes_with_jumps_def)
qed

lemma black_scholes_call_literal:
  "black_scholes_option_pricing 100 100 1 0.02 0.2 ''call''
     = Inr (100 * norm_cdf 0.2 - 100 * exp (- 0.02) * (1 / 2))"
  by (simp add: black_scholes_option_pricing_def Let_def norm_cdf_zero power2_eq_square)

lemma black_scholes_call_literal_pos:
  "0 < 100 * norm_cdf 0.2 - 100 * exp (- 0.02 :: real) * (1 / 2)"
proof -
  have "1 / 2 \<le> norm_cdf 0.2" by (rule norm_cdf_ge_half) simp_all
  moreover have "exp (- 0.02 :: real) < 1" by simp
  ultimately show ?thesis by argo
qed

text \<open>
  C1, the code at lambda = 0. For S = 100, K = 100, T = 1, r_annual = 0.02,
  sigma_annual = 0.2 and 1000 repetitions, whatever the jump-size parameters and the
  draws, \<^verbatim>\<open>black_scholes_with_jumps\<close> returns exactly ten times the closed-form call
  price, which is positive: each of the 10 passes of the inner loop adds the closed-form
  price with weight 1, and the sum is divided by the number of repetitions only.
\<close>

theorem black_scholes_with_jumps_zero_intensity_literal:
  "\<exists>p. black_scholes_option_pricing 100 100 1 0.02 0.2 ''call'' = Inr p
     \<and> 0 < p
     \<and> black_scholes_with_jumps 100 100 1 0.02 0.2 0 mu_J_annual sigma_J_annual ''call'' 1000 rnd
         = Inr (10 * p)"
proof -
  let ?p = "100 * norm_cdf 0.2 - 100 * exp (- 0.02 :: real) * (1 / 2)"
  have "black_scholes_with_jumps 100 100 1 0.02 0.2 0 mu_J_annual sigma_J_annual ''call'' 1000 rnd
         = Inr (10 * ?p)"
    by (rule black_scholes_with_jumps_zero_intensity[OF _ _ _ _ _ _ _ _ black_scholes_call_literal])
      (simp_all add: power2_eq_square)
  with black_scholes_call_literal black_scholes_call_literal_pos show ?thesis by blast
qed

end
